theory Spec2Isabelle
  imports Main "HOL-Library.Word"
begin

section \<open>Images and colours\<close>

text \<open>
  The program is \<^verbatim>\<open>conv_img_to_custom_bichrome.py\<close>. It works on images of the imaging
  library (Pillow): an image has a size \<open>(width, height)\<close> and one pixel value at every
  coordinate \<open>(x, y)\<close> inside that size. A colour is a triple of 8-bit channels, as the
  library stores it in mode \<^verbatim>\<open>RGB\<close>; a pixel of mode \<^verbatim>\<open>L\<close> or \<^verbatim>\<open>1\<close> is one byte.
  The pixel buffer is a function of the coordinate: only its values inside the size
  are pixels of the image, and every access checks the coordinate against the size,
  as the library's pixel access does.
\<close>

type_synonym u8 = "8 word"

type_synonym rgb = "u8 \<times> u8 \<times> u8"

record 'a image =
  size_img :: "nat \<times> nat"
  data :: "nat \<times> nat \<Rightarrow> 'a"

datatype error =
    FileNotFoundError string
  | UnidentifiedImageError string
  | IndexError
  | ValueError string
  | OverflowError
  | FileExistsError string
  | OSError string

type_synonym 'a result = "error + 'a"

text \<open>Two images are the same picture: same size, same pixel at every coordinate inside it.\<close>

definition same_pixels :: "'a image \<Rightarrow> 'a image \<Rightarrow> bool" where
  "same_pixels a b \<longleftrightarrow>
     size_img a = size_img b \<and>
     (\<forall>y < snd (size_img a). \<forall>x < fst (size_img a). data a (x, y) = data b (x, y))"

text \<open>The pixels of an image in raster order (row after row), for writing pictures down.\<close>

definition raster :: "'a image \<Rightarrow> 'a list" where
  "raster im =
     concat (map (\<lambda>y. map (\<lambda>x. data im (x, y)) [0 ..< fst (size_img im)])
                 [0 ..< snd (size_img im)])"

definition of_rows :: "nat \<times> nat \<Rightarrow> 'a list list \<Rightarrow> 'a image" where
  "of_rows sz rows = \<lparr> size_img = sz, data = (\<lambda>(x, y). rows ! y ! x) \<rparr>"

section \<open>The imaging library\<close>

text \<open>
  The operations of the library that \<^verbatim>\<open>replace_colors\<close> calls, as far as the program
  depends on them.

  \<^verbatim>\<open>convert("L")\<close> of an RGB image takes the ITU-R 601-2 luma of every pixel in
  16-bit fixed point: \<^verbatim>\<open>(R*19595 + G*38470 + B*7471 + 0x8000) >> 16\<close>. The three
  weights add up to 65536, so a grey pixel keeps its value.
\<close>

definition luma :: "rgb \<Rightarrow> u8" where
  "luma p = (case p of (r, g, b) \<Rightarrow>
     word_of_nat ((unat r * 19595 + unat g * 38470 + unat b * 7471 + 32768) div 65536))"

definition convert_L :: "rgb image \<Rightarrow> u8 image" where
  "convert_L im = \<lparr> size_img = size_img im, data = (\<lambda>c. luma (data im c)) \<rparr>"

text \<open>
  \<^verbatim>\<open>point(f, '1')\<close> of an \<^verbatim>\<open>L\<close> image calls \<open>f\<close> on 0..255 once to build a table, clips
  the table's entries to a byte, and stores for every pixel the table's entry at the
  pixel's value. The result has mode \<^verbatim>\<open>1\<close>, which keeps one byte per pixel.
\<close>

definition clip8 :: "int \<Rightarrow> u8" where
  "clip8 v = (if v < 0 then 0 else if 255 < v then 255 else word_of_int v)"

definition point_1 :: "(int \<Rightarrow> int) \<Rightarrow> u8 image \<Rightarrow> u8 image" where
  "point_1 f im =
     (let lut = map (\<lambda>i. clip8 (f (int i))) [0 ..< 256]
      in \<lparr> size_img = size_img im, data = (\<lambda>c. lut ! unat (data im c)) \<rparr>)"

text \<open>
  \<^verbatim>\<open>convert("RGB")\<close> of a mode \<^verbatim>\<open>1\<close> image writes 255 to the three channels where the
  stored byte is not zero, and 0 where it is.
\<close>

definition bit2rgb :: "u8 \<Rightarrow> rgb" where
  "bit2rgb v = (if v \<noteq> 0 then (255, 255, 255) else (0, 0, 0))"

definition convert_RGB :: "u8 image \<Rightarrow> rgb image" where
  "convert_RGB im = \<lparr> size_img = size_img im, data = (\<lambda>c. bit2rgb (data im c)) \<rparr>"

text \<open>\<^verbatim>\<open>Image.new("RGB", size)\<close>: an image of that size, filled with black.\<close>

definition Image_new :: "nat \<times> nat \<Rightarrow> rgb image" where
  "Image_new sz = \<lparr> size_img = sz, data = (\<lambda>c. (0, 0, 0)) \<rparr>"

text \<open>
  Pixel access (\<^verbatim>\<open>pixels[x, y]\<close> on the object that \<^verbatim>\<open>load()\<close> returns, and
  \<^verbatim>\<open>putpixel\<close>): a coordinate outside the image raises \<^verbatim>\<open>IndexError\<close>.
\<close>

definition in_image :: "'a image \<Rightarrow> nat \<times> nat \<Rightarrow> bool" where
  "in_image im c \<longleftrightarrow> fst c < fst (size_img im) \<and> snd c < snd (size_img im)"

definition getpixel :: "'a image \<Rightarrow> nat \<times> nat \<Rightarrow> 'a result" where
  "getpixel im c = (if in_image im c then Inr (data im c) else Inl IndexError)"

definition putpixel :: "'a image \<Rightarrow> nat \<times> nat \<Rightarrow> 'a \<Rightarrow> 'a image result" where
  "putpixel im c v =
     (if in_image im c then Inr (im\<lparr>data := (data im)(c := v)\<rparr>) else Inl IndexError)"

text \<open>
  \<^verbatim>\<open>resize(size, filter)\<close>: the library first converts the two components of the
  size to C integers, which raises \<^verbatim>\<open>OverflowError\<close> for a component outside the 32-bit
  range; then it refuses a width or height below 1 with a \<^verbatim>\<open>ValueError\<close>; otherwise
  the result has exactly the requested size, and its pixels are those the resampling
  filter computes from the source. The filter's arithmetic
  (windowed sinc coefficients in floating point) is not modelled: a filter is any
  function from the source image and the target size to the new pixel buffer.
\<close>

type_synonym resample = "rgb image \<Rightarrow> nat \<times> nat \<Rightarrow> nat \<times> nat \<Rightarrow> rgb"

definition c_int :: "int \<Rightarrow> bool" where
  "c_int v \<longleftrightarrow> - 2147483648 \<le> v \<and> v \<le> 2147483647"

definition resize :: "rgb image \<Rightarrow> int \<times> int \<Rightarrow> resample \<Rightarrow> rgb image result" where
  "resize im sz flt =
     (if \<not> (c_int (fst sz) \<and> c_int (snd sz)) then Inl OverflowError
      else if fst sz < 1 \<or> snd sz < 1
      then Inl (ValueError ''height and width must be > 0'')
      else Inr \<lparr> size_img = (nat (fst sz), nat (snd sz)),
                 data = flt im (nat (fst sz), nat (snd sz)) \<rparr>)"

section \<open>Thresholding and colour replacement\<close>

definition threshold :: int where
  "threshold = 128"

text \<open>
  Lines 19 to 24 of \<^verbatim>\<open>replace_colors\<close>: grey scale, the point operation with the
  threshold into mode \<^verbatim>\<open>1\<close>, and back to RGB.
\<close>

definition thresholded :: "rgb image \<Rightarrow> u8 image" where
  "thresholded img =
     (let bw_image = convert_L img
      in point_1 (\<lambda>x. if x > threshold then 255 else 0) bw_image)"

definition black_and_white :: "rgb image \<Rightarrow> rgb image" where
  "black_and_white img = convert_RGB (thresholded img)"

text \<open>The local function \<^verbatim>\<open>replace_pixel_color\<close>, with the two colours it closes over.\<close>

definition replace_pixel_color :: "rgb \<Rightarrow> rgb \<Rightarrow> rgb \<Rightarrow> rgb" where
  "replace_pixel_color black_color white_color pixel =
     (if pixel = (255, 255, 255) then white_color
      else if pixel = (0, 0, 0) then black_color
      else pixel)"

text \<open>
  Lines 33 to 38: a new image of the same size, and the two nested loops that write
  the replaced colour of every pixel into it. \<open>row_loop\<close> is the inner loop over \<open>x\<close> at
  one \<open>y\<close>, \<open>rows_loop\<close> the outer loop over \<open>y\<close>.
\<close>

fun row_loop ::
  "(rgb \<Rightarrow> rgb) \<Rightarrow> rgb image \<Rightarrow> nat \<Rightarrow> nat list \<Rightarrow> rgb image \<Rightarrow> rgb image result" where
  "row_loop f pixels y [] replaced_image = Inr replaced_image"
| "row_loop f pixels y (x # xs) replaced_image =
     (case getpixel pixels (x, y) of
        Inl e \<Rightarrow> Inl e
      | Inr p \<Rightarrow>
         (case putpixel replaced_image (x, y) (f p) of
            Inl e \<Rightarrow> Inl e
          | Inr replaced_image' \<Rightarrow> row_loop f pixels y xs replaced_image'))"

fun rows_loop ::
  "(rgb \<Rightarrow> rgb) \<Rightarrow> rgb image \<Rightarrow> nat list \<Rightarrow> rgb image \<Rightarrow> rgb image result" where
  "rows_loop f pixels [] replaced_image = Inr replaced_image"
| "rows_loop f pixels (y # ys) replaced_image =
     (case row_loop f pixels y [0 ..< fst (size_img pixels)] replaced_image of
        Inl e \<Rightarrow> Inl e
      | Inr replaced_image' \<Rightarrow> rows_loop f pixels ys replaced_image')"

definition replaced :: "rgb \<Rightarrow> rgb \<Rightarrow> rgb image \<Rightarrow> rgb image result" where
  "replaced black_color white_color bw_image =
     rows_loop (replace_pixel_color black_color white_color) bw_image
       [0 ..< snd (size_img bw_image)] (Image_new (size_img bw_image))"

text \<open>The image that \<^verbatim>\<open>replace_colors\<close> holds at line 39, before the optional resize.\<close>

definition recolored :: "rgb \<Rightarrow> rgb \<Rightarrow> rgb image \<Rightarrow> rgb image result" where
  "recolored black_color white_color img =
     replaced black_color white_color (black_and_white img)"

section \<open>Files, the encoder and the console\<close>

text \<open>
  What the program reads and writes. At a path there is no file, a file the library
  cannot decode (corrupt, or not an image), or a picture; decoded pictures are
  modelled in mode RGB. \<open>entries\<close> is the directory listing of a folder, in the order
  the operating system returns it, and \<open>None\<close> for a path that cannot be listed (not a
  folder, or no permission to read it). \<open>writable\<close> tells at which paths a file can be
  written or a folder made (known extension, existing parent, permission). \<open>dirs\<close>
  lists the folders that \<^verbatim>\<open>os.makedirs\<close> finds in place or has made. \<open>saved\<close> lists the images
  handed to the encoder, with the path and the parameters of each call, oldest first;
  the encoding itself (lossy for JPEG) is not modelled. \<open>stdout\<close> holds the printed
  lines, oldest first.
\<close>

datatype content = Undecodable | Picture "rgb image"

record save_params =
  optimize :: bool
  quality :: "nat option"

record world =
  files :: "string \<Rightarrow> content option"
  entries :: "string \<Rightarrow> string list option"
  writable :: "string \<Rightarrow> bool"
  dirs :: "string list"
  saved :: "(string \<times> save_params \<times> rgb image) list"
  stdout :: "string list"

definition Image_open :: "world \<Rightarrow> string \<Rightarrow> rgb image result" where
  "Image_open w image_path =
     (case files w image_path of
        None \<Rightarrow> Inl (FileNotFoundError image_path)
      | Some Undecodable \<Rightarrow> Inl (UnidentifiedImageError image_path)
      | Some (Picture im) \<Rightarrow> Inr im)"

definition Image_save :: "world \<Rightarrow> rgb image \<Rightarrow> string \<Rightarrow> save_params \<Rightarrow> world result" where
  "Image_save w im output_path ps =
     (if writable w output_path then Inr (w\<lparr>saved := saved w @ [(output_path, ps, im)]\<rparr>)
      else Inl (OSError output_path))"

definition print :: "world \<Rightarrow> string \<Rightarrow> world" where
  "print w line = w\<lparr>stdout := stdout w @ [line]\<rparr>"

section \<open>The single-image pipeline\<close>

text \<open>
  \<^verbatim>\<open>replace_colors(image_path, black_color, white_color, output_path, cleanup, resize_dim)\<close>.
  It returns nothing; an exception of a library call ends it. \<open>resize_dim\<close> is \<open>None\<close>
  or a pair of integers, and the test \<^verbatim>\<open>if resize_dim:\<close> holds for every pair, whatever
  its components. The first argument stands for the library's constant
  \<^verbatim>\<open>Image.ANTIALIAS\<close>, the filter handed to \<^verbatim>\<open>resize\<close>.
\<close>

definition replace_colors ::
  "resample \<Rightarrow> string \<Rightarrow> rgb \<Rightarrow> rgb \<Rightarrow> string \<Rightarrow> bool \<Rightarrow> (int \<times> int) option \<Rightarrow>
   world \<Rightarrow> unit result \<times> world" where
  "replace_colors ANTIALIAS image_path black_color white_color output_path cleanup resize_dim w =
     (case Image_open w image_path of
        Inl e \<Rightarrow> (Inl e, w)
      | Inr img \<Rightarrow>
         (case recolored black_color white_color img of
            Inl e \<Rightarrow> (Inl e, w)
          | Inr replaced_image \<Rightarrow>
             (case (case resize_dim of
                      None \<Rightarrow> Inr replaced_image
                    | Some d \<Rightarrow> resize replaced_image d ANTIALIAS) of
                Inl e \<Rightarrow> (Inl e, w)
              | Inr replaced_image' \<Rightarrow>
                 (case (if cleanup
                        then Image_save w replaced_image' output_path
                               \<lparr> optimize = True, quality = Some 85 \<rparr>
                        else Image_save w replaced_image' output_path
                               \<lparr> optimize = False, quality = None \<rparr>) of
                    Inl e \<Rightarrow> (Inl e, w)
                  | Inr w' \<Rightarrow>
                     (Inr (), print w' (''Processed image saved to '' @ output_path))))))"

section \<open>The folder run\<close>

text \<open>
  \<^verbatim>\<open>os.path.join\<close> (POSIX); \<^verbatim>\<open>os.makedirs(..., exist_ok=True)\<close>, which does nothing
  when the folder exists and raises when the name is taken by a file or the folder
  cannot be made; \<^verbatim>\<open>os.listdir\<close>, which raises for a path that cannot be listed (the
  program lists the folder after it has made the output folder in it, so the listing
  holds the name \<^verbatim>\<open>processed_images\<close>, which has no image extension);
  \<^verbatim>\<open>str.lower\<close> (on ASCII letters; other characters are left alone, and none of them
  lowers to a letter of the five extensions) and \<^verbatim>\<open>str.endswith\<close> with a tuple of
  suffixes.
\<close>

definition os_path_join :: "string \<Rightarrow> string \<Rightarrow> string" where
  "os_path_join a b =
     (if b \<noteq> [] \<and> hd b = CHR ''/'' then b
      else if a = [] \<or> last a = CHR ''/'' then a @ b
      else a @ ''/'' @ b)"

definition os_makedirs :: "world \<Rightarrow> string \<Rightarrow> world result" where
  "os_makedirs w p =
     (if p \<in> set (dirs w) then Inr w
      else if files w p \<noteq> None then Inl (FileExistsError p)
      else if \<not> writable w p then Inl (OSError p)
      else Inr (w\<lparr>dirs := dirs w @ [p]\<rparr>))"

definition os_listdir :: "world \<Rightarrow> string \<Rightarrow> string list result" where
  "os_listdir w p = (case entries w p of None \<Rightarrow> Inl (OSError p) | Some names \<Rightarrow> Inr names)"

definition lower_char :: "char \<Rightarrow> char" where
  "lower_char c =
     (case map_of (zip ''ABCDEFGHIJKLMNOPQRSTUVWXYZ'' ''abcdefghijklmnopqrstuvwxyz'') c of
        Some l \<Rightarrow> l
      | None \<Rightarrow> c)"

definition lower :: "string \<Rightarrow> string" where
  "lower s = map lower_char s"

definition endswith :: "string \<Rightarrow> string list \<Rightarrow> bool" where
  "endswith s sufs =
     list_ex (\<lambda>suf. length suf \<le> length s \<and> drop (length s - length suf) s = suf) sufs"

definition is_image_name :: "string \<Rightarrow> bool" where
  "is_image_name file_name =
     endswith (lower file_name) [''.png'', ''.jpg'', ''.jpeg'', ''.bmp'', ''.gif'']"

text \<open>
  The loop of \<^verbatim>\<open>process_images_in_folder\<close> over the listing. The call of
  \<^verbatim>\<open>replace_colors\<close> stands in the loop body with no handler around it: an exception
  leaves the loop and the function. So do an exception of \<^verbatim>\<open>os.makedirs\<close> and one of
  \<^verbatim>\<open>os.listdir\<close>, before the loop starts.
\<close>

fun folder_loop ::
  "resample \<Rightarrow> string \<Rightarrow> string \<Rightarrow> rgb \<Rightarrow> rgb \<Rightarrow> bool \<Rightarrow> (int \<times> int) option \<Rightarrow>
   string list \<Rightarrow> world \<Rightarrow> unit result \<times> world" where
  "folder_loop ANTIALIAS folder_path output_folder black_color white_color cleanup resize_dim
     [] w = (Inr (), w)"
| "folder_loop ANTIALIAS folder_path output_folder black_color white_color cleanup resize_dim
     (file_name # rest) w =
     (if is_image_name file_name then
        (let input_path = os_path_join folder_path file_name;
             output_path = os_path_join output_folder file_name
         in case replace_colors ANTIALIAS input_path black_color white_color output_path
                   cleanup resize_dim w of
              (Inl e, w') \<Rightarrow> (Inl e, w')
            | (Inr u, w') \<Rightarrow>
                folder_loop ANTIALIAS folder_path output_folder black_color white_color
                  cleanup resize_dim rest w')
      else folder_loop ANTIALIAS folder_path output_folder black_color white_color
             cleanup resize_dim rest w)"

definition process_images_in_folder ::
  "resample \<Rightarrow> string \<Rightarrow> rgb \<Rightarrow> rgb \<Rightarrow> bool \<Rightarrow> (int \<times> int) option \<Rightarrow>
   world \<Rightarrow> unit result \<times> world" where
  "process_images_in_folder ANTIALIAS folder_path black_color white_color cleanup resize_dim w =
     (let output_folder = os_path_join folder_path ''processed_images''
      in case os_makedirs w output_folder of
           Inl e \<Rightarrow> (Inl e, w)
         | Inr w1 \<Rightarrow>
            (case os_listdir w1 folder_path of
               Inl e \<Rightarrow> (Inl e, w1)
             | Inr names \<Rightarrow>
                (case folder_loop ANTIALIAS folder_path output_folder black_color white_color
                        cleanup resize_dim names w1 of
                   (Inl e, w2) \<Rightarrow> (Inl e, w2)
                 | (Inr u, w2) \<Rightarrow>
                     (Inr (),
                      print w2 (''All images processed and saved to '' @ output_folder)))))"

section \<open>Closed form and examples\<close>

text \<open>
  The image that thresholding and replacement produce, written without the loops:
  inside the image the pixel is the white replacement where the luma exceeds 128 and
  the black replacement elsewhere. \<open>recolored_eq\<close> below proves that the loops of the
  program compute it.
\<close>

definition bichrome :: "rgb \<Rightarrow> rgb \<Rightarrow> rgb image \<Rightarrow> rgb image" where
  "bichrome bc wc img =
     \<lparr> size_img = size_img img,
       data = (\<lambda>c. if in_image img c
                    then (if 128 < unat (luma (data img c)) then wc else bc)
                    else (0, 0, 0)) \<rparr>"

text \<open>The parameters of the two calls of \<^verbatim>\<open>save\<close>.\<close>

definition params_of :: "bool \<Rightarrow> save_params" where
  "params_of cleanup =
     (if cleanup then \<lparr> optimize = True, quality = Some 85 \<rparr>
      else \<lparr> optimize = False, quality = None \<rparr>)"

text \<open>
  The names of a folder's listing with an image extension, in enumeration order: the
  files that a folder run hands to \<^verbatim>\<open>replace_colors\<close> one after the other, as long as
  none fails.
\<close>

definition attempted :: "world \<Rightarrow> string \<Rightarrow> string list" where
  "attempted w folder_path =
     (case os_listdir w folder_path of
        Inl e \<Rightarrow> []
      | Inr names \<Rightarrow> filter is_image_name names)"

text \<open>
  The file at which a folder run fails: the name whose \<^verbatim>\<open>replace_colors\<close> raises in the
  loop, and \<open>None\<close> when the loop returns or is never entered. \<open>failing_file\<close> follows the
  loop step by step.
\<close>

fun failing_file ::
  "resample \<Rightarrow> string \<Rightarrow> string \<Rightarrow> rgb \<Rightarrow> rgb \<Rightarrow> bool \<Rightarrow> (int \<times> int) option \<Rightarrow>
   string list \<Rightarrow> world \<Rightarrow> string option" where
  "failing_file flt folder_path output_folder bc wc cleanup resize_dim [] w = None"
| "failing_file flt folder_path output_folder bc wc cleanup resize_dim (file_name # rest) w =
     (if is_image_name file_name then
        (case replace_colors flt (os_path_join folder_path file_name) bc wc
                (os_path_join output_folder file_name) cleanup resize_dim w of
           (Inl e, w') \<Rightarrow> Some file_name
         | (Inr u, w') \<Rightarrow>
             failing_file flt folder_path output_folder bc wc cleanup resize_dim rest w')
      else failing_file flt folder_path output_folder bc wc cleanup resize_dim rest w)"


text \<open>
  Concrete inputs for the examples: a nearest-neighbour filter, the 2 x 2 grey image
  with lumas 10, 200, 128 and 129, an image that is already bichrome in the default
  colours, and a file system with the folders \<^verbatim>\<open>pics\<close> (an undecodable file between
  two pictures), \<^verbatim>\<open>one\<close> (one picture) and \<^verbatim>\<open>two\<close> (two pictures), each with
  its output folder \<^verbatim>\<open>processed_images\<close> already there.
\<close>

definition nearest :: resample where
  "nearest im sz c =
     data im (fst c * fst (size_img im) div fst sz, snd c * snd (size_img im) div snd sz)"

definition grey_2x2 :: "rgb image" where
  "grey_2x2 =
     of_rows (2, 2) [[(10, 10, 10), (200, 200, 200)], [(128, 128, 128), (129, 129, 129)]]"

definition cream_2x1 :: "rgb image" where
  "cream_2x1 = of_rows (2, 1) [[(0, 0, 0), (243, 239, 221)]]"

definition disk :: world where
  "disk =
     \<lparr> files = (\<lambda>p.
         if p = ''in.png'' then Some (Picture grey_2x2)
         else if p = ''cream.png'' then Some (Picture cream_2x1)
         else if p = ''pics/ok.png'' then Some (Picture grey_2x2)
         else if p = ''pics/bad.png'' then Some Undecodable
         else if p = ''pics/good.png'' then Some (Picture cream_2x1)
         else if p = ''one/a.png'' then Some (Picture grey_2x2)
         else if p = ''two/a.png'' then Some (Picture grey_2x2)
         else if p = ''two/b.png'' then Some (Picture cream_2x1)
         else None),
       entries = (\<lambda>p.
         if p = ''pics''
         then Some [''ok.png'', ''notes.txt'', ''bad.png'', ''good.png'', ''processed_images'']
         else if p = ''one'' then Some [''a.png'', ''processed_images'']
         else if p = ''two'' then Some [''a.png'', ''b.png'', ''processed_images'']
         else None),
       writable = (\<lambda>p. True),
       dirs = [''pics/processed_images'', ''one/processed_images'', ''two/processed_images''],
       saved = [],
       stdout = [] \<rparr>"

text \<open>The same file system, with the folder \<^verbatim>\<open>two\<close> enumerated in the other order.\<close>

definition disk_reversed :: world where
  "disk_reversed =
     disk\<lparr>entries := (entries disk)(''two'' := Some [''b.png'', ''a.png'', ''processed_images''])\<rparr>"

section \<open>The thresholded image\<close>

lemma lut_nth:
  "map (\<lambda>i. clip8 (f (int i))) [0 ..< 256] ! unat (v :: u8) = clip8 (f (int (unat v)))"
proof -
  have "unat v < 256"
    using unsigned_less [of v, where ?'a = nat] by simp
  then show ?thesis
    by (simp add: nth_map)
qed

lemma point_1_data: "data (point_1 f im) c = clip8 (f (int (unat (data im c))))"
  unfolding point_1_def Let_def by (simp only: image.simps lut_nth)

lemma thresholded_data:
  "data (thresholded img) c = (if 128 < unat (luma (data img c)) then 255 else 0)"
proof -
  have "data (thresholded img) c =
      clip8 (if int (unat (luma (data img c))) > threshold then 255 else 0)"
    by (simp add: thresholded_def point_1_data convert_L_def Let_def)
  moreover have "(128 < uint (luma (data img c))) = (128 < unat (luma (data img c)))"
    by (simp add: uint_nat del: of_nat_unat)
  ultimately show ?thesis
    by (simp add: clip8_def threshold_def)
qed

lemma thresholded_size: "size_img (thresholded img) = size_img img"
  by (simp add: thresholded_def point_1_def convert_L_def Let_def)

lemma black_and_white_data:
  "data (black_and_white img) c =
     (if 128 < unat (luma (data img c)) then (255, 255, 255) else (0, 0, 0))"
  by (simp add: black_and_white_def convert_RGB_def thresholded_data bit2rgb_def)

lemma black_and_white_size: "size_img (black_and_white img) = size_img img"
  by (simp add: black_and_white_def convert_RGB_def thresholded_size)

lemma luma_grey: "luma (v, v, v) = v"
proof -
  have "(unat v * 19595 + unat v * 38470 + unat v * 7471 + 32768) div 65536 = unat v"
    by simp
  then show ?thesis
    by (simp add: luma_def)
qed

section \<open>The replacement loops\<close>

text \<open>
  The inner loop over the columns \<open>xs\<close> of row \<open>y\<close> never leaves the image, and writes
  \<open>f\<close> of the source pixel at exactly those coordinates.
\<close>

lemma row_loop_inr:
  assumes "size_img dst = size_img src" and "y < snd (size_img src)"
    and "\<forall>x\<in>set xs. x < fst (size_img src)"
  shows "row_loop f src y xs dst =
     Inr (dst\<lparr>data := (\<lambda>c. if snd c = y \<and> fst c \<in> set xs
                            then f (data src c) else data dst c)\<rparr>)"
  using assms
proof (induction xs arbitrary: dst)
  case Nil
  then show ?case by simp
next
  case (Cons x xs)
  have a: "in_image src (x, y)" "in_image dst (x, y)"
    using Cons.prems by (simp_all add: in_image_def)
  let ?d = "dst\<lparr>data := (data dst)((x, y) := f (data src (x, y)))\<rparr>"
  have "row_loop f src y (x # xs) dst = row_loop f src y xs ?d"
    using a by (simp add: getpixel_def putpixel_def)
  also have "\<dots> = Inr (?d\<lparr>data := (\<lambda>c. if snd c = y \<and> fst c \<in> set xs
                                     then f (data src c) else data ?d c)\<rparr>)"
    using Cons.prems by (intro Cons.IH) simp_all
  also have "\<dots> = Inr (dst\<lparr>data := (\<lambda>c. if snd c = y \<and> fst c \<in> set (x # xs)
                                     then f (data src c) else data dst c)\<rparr>)"
    by (auto simp: fun_eq_iff)
  finally show ?case .
qed

lemma rows_loop_inr:
  assumes "size_img dst = size_img src" and "\<forall>y\<in>set ys. y < snd (size_img src)"
  shows "rows_loop f src ys dst =
     Inr (dst\<lparr>data := (\<lambda>c. if snd c \<in> set ys \<and> fst c < fst (size_img src)
                            then f (data src c) else data dst c)\<rparr>)"
  using assms
proof (induction ys arbitrary: dst)
  case Nil
  then show ?case by simp
next
  case (Cons y ys)
  let ?d = "dst\<lparr>data := (\<lambda>c. if snd c = y \<and> fst c \<in> set [0 ..< fst (size_img src)]
                              then f (data src c) else data dst c)\<rparr>"
  have "row_loop f src y [0 ..< fst (size_img src)] dst = Inr ?d"
    using Cons.prems by (intro row_loop_inr) simp_all
  then have "rows_loop f src (y # ys) dst = rows_loop f src ys ?d"
    by simp
  also have "\<dots> = Inr (?d\<lparr>data := (\<lambda>c. if snd c \<in> set ys \<and> fst c < fst (size_img src)
                                     then f (data src c) else data ?d c)\<rparr>)"
    using Cons.prems by (intro Cons.IH) simp_all
  also have "\<dots> = Inr (dst\<lparr>data := (\<lambda>c. if snd c \<in> set (y # ys) \<and> fst c < fst (size_img src)
                                     then f (data src c) else data dst c)\<rparr>)"
    by (auto simp: fun_eq_iff)
  finally show ?case .
qed

lemma replaced_eq:
  "replaced bc wc bw =
     Inr \<lparr> size_img = size_img bw,
           data = (\<lambda>c. if in_image bw c then replace_pixel_color bc wc (data bw c)
                        else (0, 0, 0)) \<rparr>"
proof -
  have "replaced bc wc bw =
     Inr ((Image_new (size_img bw))\<lparr>data := (\<lambda>c.
        if snd c \<in> set [0 ..< snd (size_img bw)] \<and> fst c < fst (size_img bw)
        then replace_pixel_color bc wc (data bw c) else data (Image_new (size_img bw)) c)\<rparr>)"
    unfolding replaced_def by (intro rows_loop_inr) (simp_all add: Image_new_def)
  also have "\<dots> = Inr \<lparr> size_img = size_img bw,
           data = (\<lambda>c. if in_image bw c then replace_pixel_color bc wc (data bw c)
                        else (0, 0, 0)) \<rparr>"
    by (auto simp: Image_new_def in_image_def fun_eq_iff)
  finally show ?thesis .
qed

lemma recolored_eq: "recolored bc wc img = Inr (bichrome bc wc img)"
  by (auto simp: recolored_def replaced_eq black_and_white_size black_and_white_data
      bichrome_def in_image_def replace_pixel_color_def fun_eq_iff)

lemma bichrome_size: "size_img (bichrome bc wc img) = size_img img"
  by (simp add: bichrome_def)

lemma bichrome_data:
  "in_image img c \<Longrightarrow>
     data (bichrome bc wc img) c = (if 128 < unat (luma (data img c)) then wc else bc)"
  by (simp add: bichrome_def)

section \<open>The pipeline in closed form\<close>

lemma replace_colors_unreadable:
  "Image_open w p = Inl e \<Longrightarrow> replace_colors flt p bc wc out cl rd w = (Inl e, w)"
  by (simp add: replace_colors_def)

lemma replace_colors_readable:
  assumes "Image_open w p = Inr img"
  shows "replace_colors flt p bc wc out cl rd w =
     (case (case rd of None \<Rightarrow> Inr (bichrome bc wc img)
                     | Some d \<Rightarrow> resize (bichrome bc wc img) d flt) of
        Inl e \<Rightarrow> (Inl e, w)
      | Inr im \<Rightarrow>
          if writable w out
          then (Inr (), print (w\<lparr>saved := saved w @ [(out, params_of cl, im)]\<rparr>)
                          (''Processed image saved to '' @ out))
          else (Inl (OSError out), w))"
  using assms
  by (simp add: replace_colors_def recolored_eq Image_save_def params_of_def
      split: option.splits sum.splits)

text \<open>A run that fails leaves the files and the console as they were.\<close>

lemma replace_colors_failed:
  "replace_colors flt p bc wc out cl rd w = (Inl e, w') \<Longrightarrow> w' = w"
  by (cases "Image_open w p")
    (auto simp: replace_colors_unreadable replace_colors_readable
      split: option.splits sum.splits if_splits)

lemma replace_colors_succeeded:
  assumes "replace_colors flt p bc wc out cl rd w = (Inr u, w')"
  shows "\<exists>img im. Image_open w p = Inr img \<and> writable w out \<and>
     (case rd of None \<Rightarrow> Inr (bichrome bc wc img)
               | Some d \<Rightarrow> resize (bichrome bc wc img) d flt) = Inr im \<and>
     w' = print (w\<lparr>saved := saved w @ [(out, params_of cl, im)]\<rparr>)
            (''Processed image saved to '' @ out)"
  using assms
  by (cases "Image_open w p")
    (auto simp: replace_colors_unreadable replace_colors_readable
      split: option.splits sum.splits if_splits)

lemma replace_colors_returns:
  assumes "Image_open w p = Inr img" and "writable w out"
    and "case rd of None \<Rightarrow> True
         | Some d \<Rightarrow> 0 < fst d \<and> 0 < snd d \<and> c_int (fst d) \<and> c_int (snd d)"
  shows "fst (replace_colors flt p bc wc out cl rd w) = Inr ()"
  using assms
  by (auto simp: replace_colors_readable resize_def split: option.splits)

section \<open>The folder loop\<close>

lemma os_makedirs_keeps:
  assumes "os_makedirs w d = Inr w0"
  shows "files w0 = files w" and "writable w0 = writable w" and "saved w0 = saved w"
    and "stdout w0 = stdout w" and "entries w0 = entries w"
  using assms by (auto simp: os_makedirs_def split: if_splits)

lemma os_listdir_makedirs: "os_makedirs w d = Inr w0 \<Longrightarrow> os_listdir w0 p = os_listdir w p"
  by (simp add: os_listdir_def os_makedirs_keeps)

lemma folder_loop_skip:
  "\<not> is_image_name n \<Longrightarrow>
     folder_loop flt fp outf bc wc cl rd (n # rest) w = folder_loop flt fp outf bc wc cl rd rest w"
  by simp

lemma folder_loop_fail:
  assumes "is_image_name n"
    and "fst (replace_colors flt (os_path_join fp n) bc wc (os_path_join outf n) cl rd w) = Inl e"
  shows "folder_loop flt fp outf bc wc cl rd (n # rest) w = (Inl e, w)"
proof -
  obtain w' where
    r: "replace_colors flt (os_path_join fp n) bc wc (os_path_join outf n) cl rd w = (Inl e, w')"
    using assms(2) by (metis fst_conv surj_pair)
  then have "w' = w"
    by (rule replace_colors_failed)
  then show ?thesis
    using assms(1) r by simp
qed

lemma folder_loop_ok:
  assumes "is_image_name n"
    and "replace_colors flt (os_path_join fp n) bc wc (os_path_join outf n) cl rd w = (Inr u, w')"
  shows "folder_loop flt fp outf bc wc cl rd (n # rest) w =
           folder_loop flt fp outf bc wc cl rd rest w'"
  using assms by simp

lemma folder_loop_append:
  "folder_loop flt fp outf bc wc cl rd (xs @ ys) w =
     (case folder_loop flt fp outf bc wc cl rd xs w of
        (Inl e, w') \<Rightarrow> (Inl e, w')
      | (Inr u, w') \<Rightarrow> folder_loop flt fp outf bc wc cl rd ys w')"
proof (induction xs arbitrary: w)
  case Nil
  then show ?case by simp
next
  case (Cons x xs)
  show ?case
  proof (cases "is_image_name x")
    case False
    then show ?thesis
      using Cons.IH [of w] by simp
  next
    case True
    obtain r w1 where
      r: "replace_colors flt (os_path_join fp x) bc wc (os_path_join outf x) cl rd w = (r, w1)"
      by (metis surj_pair)
    show ?thesis
    proof (cases r)
      case (Inl e)
      then show ?thesis
        using True r by simp
    next
      case (Inr u)
      then show ?thesis
        using True r Cons.IH [of w1] by simp
    qed
  qed
qed


section \<open>The examples, evaluated\<close>

lemma grey_2x2_size: "size_img grey_2x2 = (2, 2)"
  by (simp add: grey_2x2_def of_rows_def)

lemma cream_2x1_size: "size_img cream_2x1 = (2, 1)"
  by (simp add: cream_2x1_def of_rows_def)

lemma is_image_name_examples:
  "is_image_name ''ok.png''" "\<not> is_image_name ''notes.txt''" "is_image_name ''bad.png''"
  "is_image_name ''good.png''" "is_image_name ''a.png''" "is_image_name ''b.png''"
  "\<not> is_image_name ''processed_images''"
  by (simp_all add: is_image_name_def endswith_def lower_def lower_char_def)

lemma disk_open:
  assumes "files w = files disk"
  shows "Image_open w ''in.png'' = Inr grey_2x2"
    and "Image_open w ''cream.png'' = Inr cream_2x1"
    and "Image_open w ''missing.png'' = Inl (FileNotFoundError ''missing.png'')"
    and "Image_open w ''pics/ok.png'' = Inr grey_2x2"
    and "Image_open w ''pics/bad.png'' = Inl (UnidentifiedImageError ''pics/bad.png'')"
    and "Image_open w ''pics/good.png'' = Inr cream_2x1"
    and "Image_open w ''one/a.png'' = Inr grey_2x2"
    and "Image_open w ''two/a.png'' = Inr grey_2x2"
    and "Image_open w ''two/b.png'' = Inr cream_2x1"
  by (simp_all add: Image_open_def assms disk_def)

lemma disk_listing:
  "os_listdir disk ''pics''
     = Inr [''ok.png'', ''notes.txt'', ''bad.png'', ''good.png'', ''processed_images'']"
  "os_listdir disk ''one'' = Inr [''a.png'', ''processed_images'']"
  "os_listdir disk ''two'' = Inr [''a.png'', ''b.png'', ''processed_images'']"
  "os_listdir disk_reversed ''two'' = Inr [''b.png'', ''a.png'', ''processed_images'']"
  by (simp_all add: os_listdir_def disk_reversed_def disk_def)

lemma disk_makedirs:
  "os_makedirs disk (os_path_join ''pics'' ''processed_images'') = Inr disk"
  "os_makedirs disk (os_path_join ''one'' ''processed_images'') = Inr disk"
  "os_makedirs disk (os_path_join ''two'' ''processed_images'') = Inr disk"
  "os_makedirs disk_reversed (os_path_join ''two'' ''processed_images'') = Inr disk_reversed"
  by (simp_all add: os_makedirs_def os_path_join_def disk_reversed_def disk_def)


lemma disk_writable: "writable disk p"
  by (simp add: disk_def)

lemma disk_empty: "saved disk = []" "stdout disk = []"
  by (simp_all add: disk_def)

section \<open>Folder runs\<close>

text \<open>An uncaught failure ends the run, whatever stands after the failing file.\<close>

lemma process_from_loop:
  assumes "os_makedirs w (os_path_join fp ''processed_images'') = Inr w0"
    and "os_listdir w0 fp = Inr names"
  shows "process_images_in_folder flt fp bc wc cl rd w =
     (case folder_loop flt fp (os_path_join fp ''processed_images'') bc wc cl rd names w0 of
        (Inl e, w2) \<Rightarrow> (Inl e, w2)
      | (Inr u, w2) \<Rightarrow>
          (Inr (), print w2 (''All images processed and saved to '' @
                               os_path_join fp ''processed_images'')))"
  by (simp add: process_images_in_folder_def Let_def assms del: folder_loop.simps)

lemma process_stops:
  assumes "os_makedirs w (os_path_join fp ''processed_images'') = Inr w0"
    and "os_listdir w0 fp = Inr (before @ n # after)"
    and "folder_loop flt fp (os_path_join fp ''processed_images'') bc wc cl rd before w0
           = (Inr (), w1)"
    and "is_image_name n"
    and "fst (replace_colors flt (os_path_join fp n) bc wc
           (os_path_join (os_path_join fp ''processed_images'') n) cl rd w1) = Inl e"
  shows "process_images_in_folder flt fp bc wc cl rd w = (Inl e, w1)"
proof -
  let ?outf = "os_path_join fp ''processed_images''"
  have "folder_loop flt fp ?outf bc wc cl rd (n # after) w1 = (Inl e, w1)"
    using assms(4,5) by (rule folder_loop_fail)
  then have "folder_loop flt fp ?outf bc wc cl rd (before @ n # after) w0 = (Inl e, w1)"
    using assms(3) by (simp add: folder_loop_append del: folder_loop.simps)
  then show ?thesis
    by (simp add: process_from_loop [OF assms(1,2)] del: folder_loop.simps)
qed

text \<open>The folder \<^verbatim>\<open>pics\<close>: the run up to the undecodable file.\<close>

lemma pics_steps:
  "\<exists>w1. folder_loop nearest ''pics'' (os_path_join ''pics'' ''processed_images'')
          (0, 0, 0) (243, 239, 221) False None [''ok.png'', ''notes.txt''] disk
          = (Inr (), w1) \<and>
        fst (replace_colors nearest (os_path_join ''pics'' ''bad.png'') (0, 0, 0) (243, 239, 221)
               (os_path_join (os_path_join ''pics'' ''processed_images'') ''bad.png'')
               False None w1) = Inl (UnidentifiedImageError ''pics/bad.png'') \<and>
        map fst (saved w1) = [''pics/processed_images/ok.png''] \<and>
        stdout w1 = [''Processed image saved to pics/processed_images/ok.png'']"
proof -
  define outf where "outf = ''pics/processed_images''"
  define w1 where "w1 = print (disk\<lparr>saved := saved disk @
               [(''pics/processed_images/ok.png'', params_of False,
                 bichrome (0, 0, 0) (243, 239, 221) grey_2x2)]\<rparr>)
               (''Processed image saved to '' @ ''pics/processed_images/ok.png'')"
  have f0: "files disk = files disk" and f1: "files w1 = files disk"
    by (simp_all add: w1_def print_def)
  have j: "os_path_join ''pics'' ''processed_images'' = outf"
    "os_path_join ''pics'' ''ok.png'' = ''pics/ok.png''"
    "os_path_join ''pics'' ''bad.png'' = ''pics/bad.png''"
    "os_path_join outf ''ok.png'' = ''pics/processed_images/ok.png''"
    "os_path_join outf ''bad.png'' = ''pics/processed_images/bad.png''"
    by (simp_all add: os_path_join_def outf_def)
  have r1: "replace_colors nearest ''pics/ok.png'' (0, 0, 0) (243, 239, 221)
              ''pics/processed_images/ok.png'' False None disk = (Inr (), w1)"
    using disk_writable by (simp add: replace_colors_readable [OF disk_open(4) [OF f0]] w1_def)
  have r2: "fst (replace_colors nearest ''pics/bad.png'' (0, 0, 0) (243, 239, 221)
              ''pics/processed_images/bad.png'' False None w1)
            = Inl (UnidentifiedImageError ''pics/bad.png'')"
    by (simp only: replace_colors_unreadable [OF disk_open(5) [OF f1]] fst_conv)
  have s3: "folder_loop nearest ''pics'' outf (0, 0, 0) (243, 239, 221) False None [] w1
        = (Inr (), w1)"
    by simp
  have s2: "folder_loop nearest ''pics'' outf (0, 0, 0) (243, 239, 221) False None
          [''notes.txt''] w1
        = folder_loop nearest ''pics'' outf (0, 0, 0) (243, 239, 221) False None [] w1"
    by (rule folder_loop_skip [OF is_image_name_examples(2)])
  have s1: "folder_loop nearest ''pics'' outf (0, 0, 0) (243, 239, 221) False None
          [''ok.png'', ''notes.txt''] disk
        = folder_loop nearest ''pics'' outf (0, 0, 0) (243, 239, 221) False None
          [''notes.txt''] w1"
    using r1 by (intro folder_loop_ok) (simp_all only: is_image_name_examples j)
  have a: "folder_loop nearest ''pics'' (os_path_join ''pics'' ''processed_images'')
          (0, 0, 0) (243, 239, 221) False None [''ok.png'', ''notes.txt''] disk
          = (Inr (), w1)"
    by (simp only: j s1 s2 s3)
  have b: "fst (replace_colors nearest (os_path_join ''pics'' ''bad.png'') (0, 0, 0)
               (243, 239, 221)
               (os_path_join (os_path_join ''pics'' ''processed_images'') ''bad.png'')
               False None w1) = Inl (UnidentifiedImageError ''pics/bad.png'')"
    by (simp only: j r2)
  have c: "map fst (saved w1) = [''pics/processed_images/ok.png'']"
    by (simp add: w1_def print_def disk_empty)
  have d: "stdout w1 = [''Processed image saved to pics/processed_images/ok.png'']"
    by (simp add: w1_def print_def disk_empty)
  show ?thesis
    by (rule exI [of _ w1]) (simp only: a b c d simp_thms)
qed

lemma pics_listing:
  "os_listdir disk ''pics''
     = Inr ([''ok.png'', ''notes.txt''] @ ''bad.png'' # [''good.png'', ''processed_images''])"
  by (simp add: disk_listing)

lemma pics_run:
  "\<exists>w1. process_images_in_folder nearest ''pics'' (0, 0, 0) (243, 239, 221) False None disk
          = (Inl (UnidentifiedImageError ''pics/bad.png''), w1) \<and>
        map fst (saved w1) = [''pics/processed_images/ok.png''] \<and>
        stdout w1 = [''Processed image saved to pics/processed_images/ok.png'']"
proof -
  from pics_steps obtain w1 where
    a: "folder_loop nearest ''pics'' (os_path_join ''pics'' ''processed_images'')
          (0, 0, 0) (243, 239, 221) False None [''ok.png'', ''notes.txt''] disk
          = (Inr (), w1)"
    and b: "fst (replace_colors nearest (os_path_join ''pics'' ''bad.png'') (0, 0, 0)
               (243, 239, 221)
               (os_path_join (os_path_join ''pics'' ''processed_images'') ''bad.png'')
               False None w1) = Inl (UnidentifiedImageError ''pics/bad.png'')"
    and c: "map fst (saved w1) = [''pics/processed_images/ok.png'']"
    and d: "stdout w1 = [''Processed image saved to pics/processed_images/ok.png'']"
    by (elim exE conjE)
  have e: "process_images_in_folder nearest ''pics'' (0, 0, 0) (243, 239, 221) False None disk
          = (Inl (UnidentifiedImageError ''pics/bad.png''), w1)"
    using disk_makedirs(1) pics_listing a is_image_name_examples(3) b by (rule process_stops)
  show ?thesis
    by (rule exI [of _ w1]) (simp only: e c d simp_thms)
qed

lemma process_completes:
  assumes "os_makedirs w (os_path_join folder_path ''processed_images'') = Inr w0"
    and "os_listdir w folder_path = Inr listing"
    and "\<forall>n \<in> set (attempted w folder_path).
             (\<exists>img. files w (os_path_join folder_path n) = Some (Picture img)) \<and>
             writable w (os_path_join (os_path_join folder_path ''processed_images'') n)"
  shows "fst (process_images_in_folder flt folder_path bc wc cl None w) = Inr ()"
proof -
  let ?outf = "os_path_join folder_path ''processed_images''"
  have "fst (folder_loop flt folder_path ?outf bc wc cl None names w1) = Inr ()"
    if "files w1 = files w" "writable w1 = writable w"
      "set (filter is_image_name names) \<subseteq> set (attempted w folder_path)"
    for names w1
    using that
  proof (induction names arbitrary: w1)
    case Nil
    then show ?case by simp
  next
    case (Cons x xs)
    show ?case
    proof (cases "is_image_name x")
      case False
      then show ?thesis
        using Cons by simp
    next
      case True
      then have "x \<in> set (attempted w folder_path)"
        using Cons.prems(3) by auto
      with assms(3) obtain img where
        i: "files w (os_path_join folder_path x) = Some (Picture img)"
        and wr: "writable w (os_path_join ?outf x)"
        by blast
      have o: "Image_open w1 (os_path_join folder_path x) = Inr img"
        using i Cons.prems(1) by (simp add: Image_open_def)
      let ?w2 = "print (w1\<lparr>saved := saved w1 @
                   [(os_path_join ?outf x, params_of cl, bichrome bc wc img)]\<rparr>)
                   (''Processed image saved to '' @ os_path_join ?outf x)"
      have r: "replace_colors flt (os_path_join folder_path x) bc wc (os_path_join ?outf x)
                 cl None w1 = (Inr (), ?w2)"
        using wr Cons.prems(2) by (simp add: replace_colors_readable [OF o])
      have "fst (folder_loop flt folder_path ?outf bc wc cl None xs ?w2) = Inr ()"
        using Cons.prems True by (intro Cons.IH) (simp_all add: print_def)
      then show ?thesis
        using True r by simp
    qed
  qed
  from this [of w0 listing]
  have "fst (folder_loop flt folder_path ?outf bc wc cl None listing w0) = Inr ()"
    by (simp add: os_makedirs_keeps [OF assms(1)] assms(2) attempted_def)
  moreover have "os_listdir w0 folder_path = Inr listing"
    using assms(1,2) by (simp add: os_listdir_makedirs)
  ultimately show ?thesis
    by (auto simp: process_from_loop [OF assms(1)] split: prod.splits sum.splits
        simp del: folder_loop.simps)
qed




text \<open>\<open>failing_file\<close> names a file exactly when the loop raises.\<close>

lemma failing_file_None:
  "failing_file flt fp outf bc wc cl rd names w = None \<longleftrightarrow>
     fst (folder_loop flt fp outf bc wc cl rd names w) = Inr ()"
proof (induction names arbitrary: w)
  case Nil
  then show ?case by simp
next
  case (Cons x xs)
  show ?case
  proof (cases "is_image_name x")
    case False
    then show ?thesis
      using Cons.IH [of w] by simp
  next
    case True
    obtain r1 w1 where
      r: "replace_colors flt (os_path_join fp x) bc wc (os_path_join outf x) cl rd w = (r1, w1)"
      by (rule prod.exhaust)
    show ?thesis
    proof (cases r1)
      case (Inl e)
      then show ?thesis
        using True r by simp
    next
      case (Inr u)
      then show ?thesis
        using True r Cons.IH [of w1] by simp
    qed
  qed
qed


section \<open>The folders one and two\<close>

lemma one_attempted: "attempted disk ''one'' = [''a.png'']"
  by (simp add: attempted_def disk_listing is_image_name_examples)


lemma disk_files:
  "files disk ''one/a.png'' = Some (Picture grey_2x2)"
  "files disk ''two/a.png'' = Some (Picture grey_2x2)"
  "files disk ''two/b.png'' = Some (Picture cream_2x1)"
  by (simp_all add: disk_def)

lemma one_completes:
  "fst (process_images_in_folder nearest ''one'' (0, 0, 0) (243, 239, 221) False None disk)
     = Inr ()"
  by (rule process_completes [OF disk_makedirs(2) disk_listing(2)])
    (simp add: one_attempted os_path_join_def disk_files disk_writable)





section \<open>Claims about thresholding and replacement\<close>

text \<open>
  C1. The Thresholder classifies a source pixel as light (stores 255 in the mode 1
  image) if and only if the pixel's luma is strictly greater than 128, and as dark
  (stores 0) otherwise; a pixel whose luma is exactly 128 is dark.
\<close>

theorem thresholder_strict_boundary:
  "(data (thresholded img) c = 255 \<longleftrightarrow> 128 < unat (luma (data img c))) \<and>
   (data (thresholded img) c = 0 \<longleftrightarrow> unat (luma (data img c)) \<le> 128) \<and>
   (unat (luma (data img c)) = 128 \<longrightarrow> data (thresholded img) c = 0)"
  by (simp add: thresholded_data)

theorem thresholder_strict_boundary_witness:
  "unat (luma (data grey_2x2 (0, 1))) = 128 \<and> data (thresholded grey_2x2) (0, 1) = 0"
  using thresholder_strict_boundary [of grey_2x2 "(0, 1)"]
  by (simp add: grey_2x2_def of_rows_def luma_grey)

text \<open>
  C2. In a run of the single-image pipeline without resize on a readable picture and
  a writable output path, the image handed to the encoder has the size of the source,
  and at every coordinate of the source a pixel with luma in [0,127] has become the
  dark colour and a pixel with luma in [129,255] the light colour. In particular the
  2 x 2 image with lumas 10, 200, 128, 129 gives, under the default colours, the
  pixels (0,0,0), (243,239,221), (0,0,0), (243,239,221).
\<close>

theorem pipeline_dark_below_light_above:
  "(\<forall>flt w image_path output_path cleanup darkColor lightColor img.
      Image_open w image_path = Inr img \<and> writable w output_path \<longrightarrow>
      (\<exists>out. replace_colors flt image_path darkColor lightColor output_path cleanup None w =
                (Inr (), print (w\<lparr>saved := saved w @ [(output_path, params_of cleanup, out)]\<rparr>)
                           (''Processed image saved to '' @ output_path)) \<and>
             size_img out = size_img img \<and>
             (\<forall>c. in_image img c \<longrightarrow>
                (unat (luma (data img c)) \<le> 127 \<longrightarrow> data out c = darkColor) \<and>
                (129 \<le> unat (luma (data img c)) \<longrightarrow> data out c = lightColor)))) \<and>
   map luma (raster grey_2x2) = [10, 200, 128, 129] \<and>
   (\<exists>out. saved (snd (replace_colors nearest ''in.png'' (0, 0, 0) (243, 239, 221)
                        ''out.png'' False None disk))
             = [(''out.png'', params_of False, out)] \<and>
          raster out = [(0, 0, 0), (243, 239, 221), (0, 0, 0), (243, 239, 221)])"
proof (intro conjI allI impI)
  fix flt w image_path output_path cleanup darkColor lightColor img
  assume a: "Image_open w image_path = Inr img \<and> writable w output_path"
  let ?out = "bichrome darkColor lightColor img"
  have "replace_colors flt image_path darkColor lightColor output_path cleanup None w =
          (Inr (), print (w\<lparr>saved := saved w @ [(output_path, params_of cleanup, ?out)]\<rparr>)
                     (''Processed image saved to '' @ output_path))"
    using a by (simp add: replace_colors_readable)
  moreover have "size_img ?out = size_img img"
    by (simp add: bichrome_size)
  moreover have "\<forall>c. in_image img c \<longrightarrow>
      (unat (luma (data img c)) \<le> 127 \<longrightarrow> data ?out c = darkColor) \<and>
      (129 \<le> unat (luma (data img c)) \<longrightarrow> data ?out c = lightColor)"
    by (simp add: bichrome_data)
  ultimately show "\<exists>out.
      replace_colors flt image_path darkColor lightColor output_path cleanup None w =
        (Inr (), print (w\<lparr>saved := saved w @ [(output_path, params_of cleanup, out)]\<rparr>)
                   (''Processed image saved to '' @ output_path)) \<and>
      size_img out = size_img img \<and>
      (\<forall>c. in_image img c \<longrightarrow>
         (unat (luma (data img c)) \<le> 127 \<longrightarrow> data out c = darkColor) \<and>
         (129 \<le> unat (luma (data img c)) \<longrightarrow> data out c = lightColor))"
    by blast
next
  show "map luma (raster grey_2x2) = [10, 200, 128, 129]"
    by (simp add: raster_def grey_2x2_def of_rows_def upt_rec luma_grey)
next
  have o: "Image_open disk ''in.png'' = Inr grey_2x2"
    by (simp add: Image_open_def disk_def)
  have w: "writable disk ''out.png''"
    by (simp add: disk_def)
  let ?out = "bichrome (0, 0, 0) (243, 239, 221) grey_2x2"
  have "saved (snd (replace_colors nearest ''in.png'' (0, 0, 0) (243, 239, 221)
                      ''out.png'' False None disk))
          = [(''out.png'', params_of False, ?out)]"
    using w by (simp add: replace_colors_readable [OF o] print_def) (simp add: disk_def)
  moreover have "raster ?out = [(0, 0, 0), (243, 239, 221), (0, 0, 0), (243, 239, 221)]"
    by (simp add: raster_def bichrome_def in_image_def grey_2x2_def of_rows_def upt_rec
        luma_grey)
  ultimately show "\<exists>out.
      saved (snd (replace_colors nearest ''in.png'' (0, 0, 0) (243, 239, 221)
                    ''out.png'' False None disk))
        = [(''out.png'', params_of False, out)] \<and>
      raster out = [(0, 0, 0), (243, 239, 221), (0, 0, 0), (243, 239, 221)]"
    by blast
qed

theorem pipeline_dark_below_light_above_witness:
  "Image_open disk ''in.png'' = Inr grey_2x2 \<and> writable disk ''out.png'' \<and>
   in_image grey_2x2 (1, 0) \<and> 129 \<le> unat (luma (data grey_2x2 (1, 0))) \<and>
   (\<exists>out. saved (snd (replace_colors nearest ''in.png'' (0, 0, 0) (243, 239, 221)
                        ''out.png'' True None disk))
             = [(''out.png'', params_of True, out)] \<and>
          data out (1, 0) = (243, 239, 221))"
proof -
  have o: "Image_open disk ''in.png'' = Inr grey_2x2"
    by (simp add: Image_open_def disk_def)
  have w: "writable disk ''out.png''"
    by (simp add: disk_def)
  have i: "in_image grey_2x2 (1, 0)"
    by (simp add: in_image_def grey_2x2_def of_rows_def)
  have l: "129 \<le> unat (luma (data grey_2x2 (1, 0)))"
    by (simp add: grey_2x2_def of_rows_def luma_grey)
  from pipeline_dark_below_light_above o w
  obtain out where
    r: "replace_colors nearest ''in.png'' (0, 0, 0) (243, 239, 221) ''out.png'' True None disk =
          (Inr (), print (disk\<lparr>saved := saved disk @ [(''out.png'', params_of True, out)]\<rparr>)
                     (''Processed image saved to '' @ ''out.png''))"
    and p: "\<forall>c. in_image grey_2x2 c \<longrightarrow>
         (unat (luma (data grey_2x2 c)) \<le> 127 \<longrightarrow> data out c = (0, 0, 0)) \<and>
         (129 \<le> unat (luma (data grey_2x2 c)) \<longrightarrow> data out c = (243, 239, 221))"
    by blast
  have "saved (snd (replace_colors nearest ''in.png'' (0, 0, 0) (243, 239, 221)
                      ''out.png'' True None disk)) = [(''out.png'', params_of True, out)]"
    unfolding r by (simp add: print_def disk_def)
  moreover have "data out (1, 0) = (243, 239, 221)"
    using p i l by blast
  ultimately show ?thesis
    using o w i l by blast
qed

text \<open>
  C3. For every input image and every pair of configured colours, the image that the
  replacement loops produce (before any resize) holds only the two configured
  colours: every pixel inside it is the dark colour or the light colour.
\<close>

theorem color_mapper_two_colors:
  "\<exists>out. recolored darkColor lightColor img = Inr out \<and>
         size_img out = size_img img \<and>
         (\<forall>c. in_image out c \<longrightarrow> data out c = darkColor \<or> data out c = lightColor) \<and>
         set (raster out) \<subseteq> {darkColor, lightColor}"
proof -
  let ?out = "bichrome darkColor lightColor img"
  have p: "\<forall>c. in_image ?out c \<longrightarrow> data ?out c = darkColor \<or> data ?out c = lightColor"
    by (simp add: bichrome_def in_image_def)
  have "set (raster ?out) \<subseteq> {darkColor, lightColor}"
  proof
    fix v
    assume "v \<in> set (raster ?out)"
    then obtain x y where "x < fst (size_img ?out)" "y < snd (size_img ?out)"
      "v = data ?out (x, y)"
      by (auto simp: raster_def)
    then show "v \<in> {darkColor, lightColor}"
      using p by (auto simp: in_image_def)
  qed
  then show ?thesis
    using p by (simp add: recolored_eq bichrome_size)
qed

theorem color_mapper_two_colors_witness:
  "\<exists>out. recolored (7, 8, 9) (243, 239, 221) grey_2x2 = Inr out \<and>
         in_image out (1, 1) \<and>
         (data out (1, 1) = (7, 8, 9) \<or> data out (1, 1) = (243, 239, 221))"
proof -
  from color_mapper_two_colors [of "(7, 8, 9)" "(243, 239, 221)" grey_2x2]
  obtain out where
    r: "recolored (7, 8, 9) (243, 239, 221) grey_2x2 = Inr out"
    and s: "size_img out = size_img grey_2x2"
    and p: "\<forall>c. in_image out c \<longrightarrow> data out c = (7, 8, 9) \<or> data out c = (243, 239, 221)"
    by blast
  have "in_image out (1, 1)"
    using s by (simp add: in_image_def grey_2x2_def of_rows_def)
  then show ?thesis
    using r p by blast
qed

text \<open>
  C9. After grey scale, the point operation into mode 1 and the conversion back to
  RGB, every pixel is exactly (0,0,0) or (255,255,255). So for every pixel that the
  loops pass to \<^verbatim>\<open>replace_pixel_color\<close>, one of its two tests holds: the last line of
  the function, which returns the pixel unchanged, is never reached, and the result
  is one of the two replacement colours.
\<close>

theorem binarized_pure_black_or_white:
  "(data (black_and_white img) c = (0, 0, 0) \<or>
    data (black_and_white img) c = (255, 255, 255)) \<and>
   replace_pixel_color black_color white_color (data (black_and_white img) c) =
     (if data (black_and_white img) c = (255, 255, 255) then white_color else black_color)"
  by (simp add: black_and_white_data replace_pixel_color_def)

section \<open>Claims about the run of one image\<close>

text \<open>
  C6. In every successful run of the single-image pipeline the image handed to the
  encoder has the size of the input image if no resize was requested, and exactly
  the requested width and height (both positive) if a resize was requested.
\<close>

theorem output_dimensions:
  assumes "replace_colors flt image_path black_color white_color output_path cleanup
             resize_dim w = (Inr (), w')"
    and "Image_open w image_path = Inr img"
  shows "\<exists>ps out. saved w' = saved w @ [(output_path, ps, out)] \<and>
     (resize_dim = None \<longrightarrow> size_img out = size_img img) \<and>
     (\<forall>width height. resize_dim = Some (width, height) \<longrightarrow>
        0 < width \<and> 0 < height \<and>
        int (fst (size_img out)) = width \<and> int (snd (size_img out)) = height)"
proof -
  from replace_colors_succeeded [OF assms(1)] assms(2)
  obtain out where
    o: "(case resize_dim of None \<Rightarrow> Inr (bichrome black_color white_color img)
          | Some d \<Rightarrow> resize (bichrome black_color white_color img) d flt) = Inr out"
    and w': "w' = print (w\<lparr>saved := saved w @ [(output_path, params_of cleanup, out)]\<rparr>)
                    (''Processed image saved to '' @ output_path)"
    by auto
  have "saved w' = saved w @ [(output_path, params_of cleanup, out)]"
    by (simp add: w' print_def)
  moreover have "resize_dim = None \<longrightarrow> size_img out = size_img img"
    using o by (auto simp: bichrome_size)
  moreover have "\<forall>width height. resize_dim = Some (width, height) \<longrightarrow>
        0 < width \<and> 0 < height \<and>
        int (fst (size_img out)) = width \<and> int (snd (size_img out)) = height"
    using o by (auto simp: resize_def split: if_splits)
  ultimately show ?thesis by blast
qed

theorem output_dimensions_witness:
  "(\<exists>w'. replace_colors nearest ''in.png'' (0, 0, 0) (243, 239, 221) ''out.jpg'' True
            (Some (3, 1)) disk = (Inr (), w') \<and>
         (\<exists>ps out. saved w' = [(''out.jpg'', ps, out)] \<and> size_img out = (3, 1))) \<and>
   (\<exists>w'. replace_colors nearest ''in.png'' (0, 0, 0) (243, 239, 221) ''out.jpg'' True
            None disk = (Inr (), w') \<and>
         (\<exists>ps out. saved w' = [(''out.jpg'', ps, out)] \<and> size_img out = (2, 2)))"
proof -
  have o: "Image_open disk ''in.png'' = Inr grey_2x2"
    by (simp add: disk_open)
  have "fst (replace_colors nearest ''in.png'' (0, 0, 0) (243, 239, 221) ''out.jpg'' True
           (Some (3, 1)) disk) = Inr ()"
    by (rule replace_colors_returns [OF o disk_writable]) (simp add: c_int_def)
  then obtain w1 where
    r1: "replace_colors nearest ''in.png'' (0, 0, 0) (243, 239, 221) ''out.jpg'' True
           (Some (3, 1)) disk = (Inr (), w1)"
    by (metis fst_conv surj_pair)
  have "fst (replace_colors nearest ''in.png'' (0, 0, 0) (243, 239, 221) ''out.jpg'' True
           None disk) = Inr ()"
    by (rule replace_colors_returns [OF o disk_writable]) simp
  then obtain w2 where
    r2: "replace_colors nearest ''in.png'' (0, 0, 0) (243, 239, 221) ''out.jpg'' True
           None disk = (Inr (), w2)"
    by (metis fst_conv surj_pair)
  from output_dimensions [OF r1 o] obtain ps1 out1 where
    "saved w1 = [(''out.jpg'', ps1, out1)]" "size_img out1 = (3, 1)"
    by (auto simp: disk_empty prod_eq_iff)
  moreover from output_dimensions [OF r2 o] obtain ps2 out2 where
    "saved w2 = [(''out.jpg'', ps2, out2)]" "size_img out2 = (2, 2)"
    by (auto simp: disk_empty grey_2x2_size)
  ultimately show ?thesis
    using r1 r2 by blast
qed

text \<open>
  C7. For every readable image that is already bichrome in the default colours
  (every pixel is (0,0,0) or (243,239,221)), a run with the dark colour (0,0,0), the
  light colour (243,239,221) and no resize hands to the encoder an image with the
  same size and the same pixel at every coordinate.
\<close>

theorem default_colors_round_trip:
  assumes "Image_open w image_path = Inr img"
    and "writable w output_path"
    and "\<forall>c. in_image img c \<longrightarrow> data img c = (0, 0, 0) \<or> data img c = (243, 239, 221)"
  shows "\<exists>out. replace_colors flt image_path (0, 0, 0) (243, 239, 221) output_path cleanup
                  None w =
             (Inr (), print (w\<lparr>saved := saved w @ [(output_path, params_of cleanup, out)]\<rparr>)
                        (''Processed image saved to '' @ output_path)) \<and>
             same_pixels out img"
proof -
  let ?out = "bichrome (0, 0, 0) (243, 239, 221) img"
  have l: "luma (0, 0, 0) = 0" "luma (243, 239, 221) = 238"
    by (simp_all add: luma_def)
  have "data ?out c = data img c" if "in_image img c" for c
  proof -
    from assms(3) that have "data img c = (0, 0, 0) \<or> data img c = (243, 239, 221)"
      by blast
    then show ?thesis
      using that l by (auto simp: bichrome_data)
  qed
  then have "same_pixels ?out img"
    by (simp add: same_pixels_def bichrome_size in_image_def)
  then show ?thesis
    using assms(1,2) by (auto simp: replace_colors_readable)
qed

theorem default_colors_round_trip_witness:
  "Image_open disk ''cream.png'' = Inr cream_2x1 \<and>
   raster cream_2x1 = [(0, 0, 0), (243, 239, 221)] \<and>
   (\<exists>out. saved (snd (replace_colors nearest ''cream.png'' (0, 0, 0) (243, 239, 221)
                        ''again.png'' False None disk))
             = [(''again.png'', params_of False, out)] \<and>
          same_pixels out cream_2x1)"
proof -
  have o: "Image_open disk ''cream.png'' = Inr cream_2x1"
    by (simp add: disk_open)
  have b: "\<forall>c. in_image cream_2x1 c \<longrightarrow>
      data cream_2x1 c = (0, 0, 0) \<or> data cream_2x1 c = (243, 239, 221)"
    by (auto simp: in_image_def cream_2x1_def of_rows_def less_Suc_eq numeral_2_eq_2)
  have r: "raster cream_2x1 = [(0, 0, 0), (243, 239, 221)]"
    by (simp add: raster_def cream_2x1_def of_rows_def upt_rec)
  from default_colors_round_trip [OF o disk_writable b, of nearest "''again.png''" False]
  obtain out where
    "replace_colors nearest ''cream.png'' (0, 0, 0) (243, 239, 221) ''again.png'' False None disk =
       (Inr (), print (disk\<lparr>saved := saved disk @ [(''again.png'', params_of False, out)]\<rparr>)
                  (''Processed image saved to '' @ ''again.png''))"
    and "same_pixels out cream_2x1"
    by blast
  then show ?thesis
    using o r by (auto simp: print_def disk_empty)
qed

text \<open>
  C5, as the specification states it, fails: \<^verbatim>\<open>replace_colors\<close> never looks at the
  components of \<open>resize_dim\<close>. With the dimensions (0, 5) and a readable image the run
  thresholds and recolours the image and calls \<^verbatim>\<open>resize\<close> with (0, 5); the error that
  ends the run is the \<^verbatim>\<open>ValueError\<close> that \<^verbatim>\<open>resize\<close> itself raises. With a file that
  does not exist the same dimensions are not rejected at all: the run ends with the
  error of \<^verbatim>\<open>Image.open\<close>.
\<close>

theorem dimensions_not_checked_counterexample:
  "recolored (0, 0, 0) (243, 239, 221) grey_2x2 = Inr (bichrome (0, 0, 0) (243, 239, 221) grey_2x2) \<and>
   resize (bichrome (0, 0, 0) (243, 239, 221) grey_2x2) (0, 5) nearest
     = Inl (ValueError ''height and width must be > 0'') \<and>
   replace_colors nearest ''in.png'' (0, 0, 0) (243, 239, 221) ''out.png'' False
     (Some (0, 5)) disk = (Inl (ValueError ''height and width must be > 0''), disk) \<and>
   replace_colors nearest ''missing.png'' (0, 0, 0) (243, 239, 221) ''out.png'' False
     (Some (0, 5)) disk = (Inl (FileNotFoundError ''missing.png''), disk)"
proof -
  have o: "Image_open disk ''in.png'' = Inr grey_2x2"
    and m: "Image_open disk ''missing.png'' = Inl (FileNotFoundError ''missing.png'')"
    by (simp_all add: disk_open)
  show ?thesis
    by (simp add: recolored_eq replace_colors_readable [OF o] replace_colors_unreadable [OF m]
        resize_def c_int_def)
qed

text \<open>
  C5, amended. For every requested pair whose width or height is zero or negative, the
  pipeline does not check the pair itself. An input that cannot be opened ends the run
  with the error of \<^verbatim>\<open>Image.open\<close>, whatever the pair. For a readable input the run
  thresholds and recolours the image and then passes the pair to the library's
  \<^verbatim>\<open>resize\<close>, whose refusal ends the run: \<^verbatim>\<open>OverflowError\<close> when a component does not
  fit a C integer, \<^verbatim>\<open>ValueError\<close> otherwise. Nothing is saved or printed, and the
  dimensions are never clamped.
\<close>

theorem nonpositive_dimensions_reach_resize:
  assumes "width < 1 \<or> height < 1"
  shows "(\<forall>e. Image_open w image_path = Inl e \<longrightarrow>
            replace_colors flt image_path black_color white_color output_path cleanup
              (Some (width, height)) w = (Inl e, w)) \<and>
         (\<forall>img. Image_open w image_path = Inr img \<longrightarrow>
            (\<exists>replaced_image e.
               recolored black_color white_color img = Inr replaced_image \<and>
               resize replaced_image (width, height) flt = Inl e \<and>
               e = (if c_int width \<and> c_int height
                    then ValueError ''height and width must be > 0'' else OverflowError) \<and>
               replace_colors flt image_path black_color white_color output_path cleanup
                 (Some (width, height)) w = (Inl e, w)))"
  using assms
  by (auto simp: recolored_eq replace_colors_readable replace_colors_unreadable resize_def)

theorem nonpositive_dimensions_reach_resize_witness:
  "((-3 :: int) < 1 \<or> (4 :: int) < 1) \<and> ((0 :: int) < 1 \<or> (2147483648 :: int) < 1) \<and>
   Image_open disk ''missing.png'' = Inl (FileNotFoundError ''missing.png'') \<and>
   replace_colors nearest ''missing.png'' (0, 0, 0) (243, 239, 221) ''out.png'' True
     (Some (-3, 4)) disk = (Inl (FileNotFoundError ''missing.png''), disk) \<and>
   Image_open disk ''in.png'' = Inr grey_2x2 \<and>
   replace_colors nearest ''in.png'' (0, 0, 0) (243, 239, 221) ''out.png'' True
     (Some (-3, 4)) disk = (Inl (ValueError ''height and width must be > 0''), disk) \<and>
   replace_colors nearest ''in.png'' (0, 0, 0) (243, 239, 221) ''out.png'' True
     (Some (0, 2147483648)) disk = (Inl OverflowError, disk)"
proof -
  have o: "Image_open disk ''in.png'' = Inr grey_2x2"
    and m: "Image_open disk ''missing.png'' = Inl (FileNotFoundError ''missing.png'')"
    by (simp_all add: disk_open)
  have d: "(-3 :: int) < 1 \<or> (4 :: int) < 1" and d': "(0 :: int) < 1 \<or> (2147483648 :: int) < 1"
    by simp_all
  have c: "c_int (-3) \<and> c_int 4" and c': "\<not> (c_int 0 \<and> c_int 2147483648)"
    by (simp_all add: c_int_def)
  note t = nonpositive_dimensions_reach_resize [OF d, of disk _ nearest "(0, 0, 0)"
      "(243, 239, 221)" "''out.png''" True]
  note t' = nonpositive_dimensions_reach_resize [OF d', of disk _ nearest "(0, 0, 0)"
      "(243, 239, 221)" "''out.png''" True]
  have 1: "replace_colors nearest ''missing.png'' (0, 0, 0) (243, 239, 221) ''out.png'' True
     (Some (-3, 4)) disk = (Inl (FileNotFoundError ''missing.png''), disk)"
    using t [of "''missing.png''"] m by simp
  have 2: "replace_colors nearest ''in.png'' (0, 0, 0) (243, 239, 221) ''out.png'' True
     (Some (-3, 4)) disk = (Inl (ValueError ''height and width must be > 0''), disk)"
    using t [of "''in.png''"] o c by auto
  have 3: "replace_colors nearest ''in.png'' (0, 0, 0) (243, 239, 221) ''out.png'' True
     (Some (0, 2147483648)) disk = (Inl OverflowError, disk)"
    using t' [of "''in.png''"] o c' by auto
  show ?thesis
    using d d' m o 1 2 3 by (intro conjI)
qed

section \<open>Claims about the folder run\<close>

text \<open>
  C4, as the specification states it, fails: the loop of \<^verbatim>\<open>process_images_in_folder\<close>
  calls \<^verbatim>\<open>replace_colors\<close> with no handler around it. In the folder \<^verbatim>\<open>pics\<close> the
  listing is \<^verbatim>\<open>ok.png\<close>, \<^verbatim>\<open>notes.txt\<close>, \<^verbatim>\<open>bad.png\<close>, \<^verbatim>\<open>good.png\<close> and the
  output folder, and \<^verbatim>\<open>bad.png\<close> cannot be decoded. The run ends with the error of \<^verbatim>\<open>bad.png\<close>; the
  readable picture \<^verbatim>\<open>good.png\<close>, next in the listing, is never processed: the only
  output saved is that of \<^verbatim>\<open>ok.png\<close>.
\<close>

theorem batch_failure_isolation_counterexample:
  "attempted disk ''pics'' = [''ok.png'', ''bad.png'', ''good.png''] \<and>
   Image_open disk ''pics/good.png'' = Inr cream_2x1 \<and>
   fst (process_images_in_folder nearest ''pics'' (0, 0, 0) (243, 239, 221) False None disk)
     = Inl (UnidentifiedImageError ''pics/bad.png'') \<and>
   map fst (saved (snd (process_images_in_folder nearest ''pics'' (0, 0, 0) (243, 239, 221)
                          False None disk)))
     = [''pics/processed_images/ok.png'']"
proof -
  have a: "attempted disk ''pics'' = [''ok.png'', ''bad.png'', ''good.png'']"
    by (simp add: attempted_def disk_listing is_image_name_examples)
  have b: "Image_open disk ''pics/good.png'' = Inr cream_2x1"
    by (simp add: disk_open)
  from pics_run obtain w1 where
    e: "process_images_in_folder nearest ''pics'' (0, 0, 0) (243, 239, 221) False None disk
          = (Inl (UnidentifiedImageError ''pics/bad.png''), w1)"
    and c: "map fst (saved w1) = [''pics/processed_images/ok.png'']"
    by (elim exE conjE)
  show ?thesis
    by (simp only: a b e c fst_conv snd_conv simp_thms)
qed

text \<open>
  C4, amended. In every folder run (the output folder made, the folder listed) a
  failure while processing one file aborts the batch: the exception of that file's \<^verbatim>\<open>replace_colors\<close> is not caught and leaves
  \<^verbatim>\<open>process_images_in_folder\<close>. The files enumerated before the failing one have been
  processed, no file after it is attempted, nothing is recorded and the final line
  is not printed, wherever the failing file stands in the enumeration order.
\<close>

theorem batch_stops_at_first_failure:
  assumes "os_makedirs w (os_path_join folder_path ''processed_images'') = Inr w0"
    and "os_listdir w0 folder_path = Inr (before @ file_name # after)"
    and "folder_loop flt folder_path (os_path_join folder_path ''processed_images'')
           black_color white_color cleanup resize_dim before w0 = (Inr (), w1)"
    and "is_image_name file_name"
    and "fst (replace_colors flt (os_path_join folder_path file_name) black_color white_color
           (os_path_join (os_path_join folder_path ''processed_images'') file_name)
           cleanup resize_dim w1) = Inl e"
  shows "process_images_in_folder flt folder_path black_color white_color cleanup resize_dim w
           = (Inl e, w1)"
  using assms by (rule process_stops)

theorem batch_stops_at_first_failure_witness:
  "os_makedirs disk (os_path_join ''pics'' ''processed_images'') = Inr disk \<and>
   os_listdir disk ''pics''
     = Inr ([''ok.png'', ''notes.txt''] @ ''bad.png'' # [''good.png'', ''processed_images'']) \<and>
   is_image_name ''bad.png'' \<and>
   (\<exists>w1. folder_loop nearest ''pics'' (os_path_join ''pics'' ''processed_images'')
            (0, 0, 0) (243, 239, 221) False None [''ok.png'', ''notes.txt''] disk
            = (Inr (), w1) \<and>
          fst (replace_colors nearest (os_path_join ''pics'' ''bad.png'') (0, 0, 0)
                 (243, 239, 221)
                 (os_path_join (os_path_join ''pics'' ''processed_images'') ''bad.png'')
                 False None w1) = Inl (UnidentifiedImageError ''pics/bad.png'') \<and>
          process_images_in_folder nearest ''pics'' (0, 0, 0) (243, 239, 221) False None disk
            = (Inl (UnidentifiedImageError ''pics/bad.png''), w1) \<and>
          stdout w1 = [''Processed image saved to pics/processed_images/ok.png''])"
proof -
  from pics_steps obtain w1 where
    a: "folder_loop nearest ''pics'' (os_path_join ''pics'' ''processed_images'')
          (0, 0, 0) (243, 239, 221) False None [''ok.png'', ''notes.txt''] disk
          = (Inr (), w1)"
    and b: "fst (replace_colors nearest (os_path_join ''pics'' ''bad.png'') (0, 0, 0)
               (243, 239, 221)
               (os_path_join (os_path_join ''pics'' ''processed_images'') ''bad.png'')
               False None w1) = Inl (UnidentifiedImageError ''pics/bad.png'')"
    and d: "stdout w1 = [''Processed image saved to pics/processed_images/ok.png'']"
    by (elim exE conjE)
  have e: "process_images_in_folder nearest ''pics'' (0, 0, 0) (243, 239, 221) False None disk
          = (Inl (UnidentifiedImageError ''pics/bad.png''), w1)"
    using batch_stops_at_first_failure
      [OF disk_makedirs(1) pics_listing a is_image_name_examples(3) b] .
  have "\<exists>w1. folder_loop nearest ''pics'' (os_path_join ''pics'' ''processed_images'')
            (0, 0, 0) (243, 239, 221) False None [''ok.png'', ''notes.txt''] disk
            = (Inr (), w1) \<and>
          fst (replace_colors nearest (os_path_join ''pics'' ''bad.png'') (0, 0, 0)
                 (243, 239, 221)
                 (os_path_join (os_path_join ''pics'' ''processed_images'') ''bad.png'')
                 False None w1) = Inl (UnidentifiedImageError ''pics/bad.png'') \<and>
          process_images_in_folder nearest ''pics'' (0, 0, 0) (243, 239, 221) False None disk
            = (Inl (UnidentifiedImageError ''pics/bad.png''), w1) \<and>
          stdout w1 = [''Processed image saved to pics/processed_images/ok.png'']"
    by (rule exI [of _ w1]) (simp only: a b d e simp_thms)
  then show ?thesis
    using disk_makedirs(1) pics_listing is_image_name_examples(3) by (intro conjI)
qed




end
